theory Spec2Isabelle
  imports Complex_Main "HOL-Library.AList"
begin

section \<open>Data model of service2.py\<close>

text \<open>
  The pydantic models of the service. Python \<open>int\<close> is \<open>int\<close>, \<open>str\<close> is \<open>string\<close>
  (one \<open>char\<close> per code point, so \<open>length\<close> is Python's \<open>len\<close>), and the two constant
  floats of the analytics block are the rationals their literals denote.
  \<open>id: Optional[int] = None\<close> is an \<open>int option\<close>.
\<close>

record User =
  id' :: "int option"
  name :: string
  email :: string
  age :: int

text \<open>The dictionary built at lines 55-63 has a fixed set of keys: a record.\<close>

record ProcessedData =
  name_length :: nat
  email_domain :: string
  age_category :: string
  name_uppercase :: string
  email_uppercase :: string
  age_squared :: int
  is_adult :: bool

record Analytics =
  processing_time_ms :: int
  data_quality_score :: rat
  confidence_level :: rat

record ProcessedUserData =
  user_id :: int
  processed_data :: ProcessedData
  processing_timestamp :: string
  analytics :: Analytics

text \<open>
  \<open>processed_users_db\<close> is a Python dictionary: insertion ordered, assignment to a key
  that is present keeps its place. That is an association list under \<open>AList.update\<close>,
  \<open>AList.delete\<close> and \<open>map_of\<close>. \<open>analytics_cache\<close> is never written and never read
  (only cleared), so it is no part of the state; neither is the line printed by
  \<open>process_user\<close>.
\<close>

type_synonym db = "(int \<times> ProcessedUserData) list"

section \<open>The field derivation of process_user\<close>

text \<open>\<open>s.split(sep)\<close> for a separator of one character; the result is never empty.\<close>

fun split_str :: "char \<Rightarrow> string \<Rightarrow> string list" where
  "split_str sep [] = [[]]"
| "split_str sep (c # cs) =
     (let parts = split_str sep cs
      in if c = sep then [] # parts else (c # hd parts) # tl parts)"

text \<open>
  Lines 55-63. \<open>str.upper\<close> is Python's own (it follows the Unicode tables and may change
  the length of a string), so it is the parameter \<open>upper\<close>.
\<close>

definition processed_data_of :: "(string \<Rightarrow> string) \<Rightarrow> User \<Rightarrow> ProcessedData" where
  "processed_data_of upper user =
     \<lparr> name_length = length (name user),
       email_domain =
         (if CHR ''@'' \<in> set (email user) then last (split_str CHR ''@'' (email user))
          else ''unknown''),
       age_category =
         (if age user < 30 then ''young'' else if age user < 50 then ''middle'' else ''senior''),
       name_uppercase = upper (name user),
       email_uppercase = upper (email user),
       age_squared = age user * age user,
       is_adult = (age user \<ge> 18) \<rparr>"

text \<open>
  On ASCII text \<open>str.upper\<close> is the following function; the concrete examples below
  pass it for \<open>upper\<close>.
\<close>

definition ascii_upper :: "string \<Rightarrow> string" where
  "ascii_upper s =
     map (\<lambda>c. case map_of (zip ''abcdefghijklmnopqrstuvwxyz'' ''ABCDEFGHIJKLMNOPQRSTUVWXYZ'') c of
                 None \<Rightarrow> c | Some u \<Rightarrow> u) s"

section \<open>Exceptions, responses and the peer service\<close>

text \<open>
  What \<open>httpx\<close> raises when the peer cannot be reached, and the exceptions of the
  handlers. \<open>HTTPException\<close> carries its status code and its detail; the detail of the
  one raised by \<open>batch_process_users\<close> is an f-string over \<open>str(e)\<close>, kept here as the
  exception \<open>e\<close> itself.
\<close>

datatype transport_error = TimeoutException | ConnectError

datatype exc =
    TransportError transport_error
  | JSONDecodeError
  | KeyError
  | TypeError
  | HTTPException nat detail
and detail =
    Detail string
  | BatchProcessingFailed exc

text \<open>
  A parsed JSON value, as \<open>response.json()\<close> returns it. An object is a Python
  dictionary: its keys are distinct and keep their order. A number with a fraction or an
  exponent is a Python float, modelled by the rational it denotes.
\<close>

datatype json =
    JNull
  | JBool bool
  | JInt int
  | JFloat rat
  | JStr string
  | JArr "json list"
  | JObj "(string \<times> json) list"

text \<open>
  One call of the peer: the client raises, or there is a response with a status code and a
  body; the body is \<open>None\<close> when \<open>response.json()\<close> cannot parse it.
\<close>

datatype reply = Failed transport_error | Response nat "json option"

record ProcessingStats =
  total_processed :: nat
  avg_processing_time_ms :: int
  avg_confidence_level :: rat
  avg_data_quality_score :: rat

text \<open>
  \<open>age_distribution\<close> is a dictionary from category to count. \<open>processing_stats\<close> is
  either the empty dictionary (\<open>None\<close>) or the dictionary of the four statistics.
  \<open>average_age\<close> is a Python float: it is modelled by a rational, with exact arithmetic
  (rounding to binary floating point, overflow and the non-finite values are not
  modelled).
\<close>

record AnalyticsSummary =
  total_users :: nat
  average_age :: rat
  age_distribution :: "(string \<times> int) list"
  processing_stats :: "ProcessingStats option"

text \<open>The bodies of the successful responses, one constructor per shape.\<close>

datatype response =
    ProcessedMessage string int
  | UserData ProcessedUserData
  | Message string
  | Summary AnalyticsSummary
  | BatchResult string nat nat

text \<open>
  The status the client sees: 200 for a returned body, the code of a raised
  \<open>HTTPException\<close>, and 500 for any other exception that leaves a handler.
\<close>

fun status_code :: "exc + response \<Rightarrow> nat" where
  "status_code (Inr _) = 200"
| "status_code (Inl (HTTPException code _)) = code"
| "status_code (Inl _) = 500"

section \<open>The record store endpoints\<close>

text \<open>\<open>str(n)\<close> for an integer, used by the f-string of \<open>delete_processed_user\<close>.\<close>

definition digit_char :: "nat \<Rightarrow> char" where
  "digit_char d = ''0123456789'' ! (d mod 10)"

fun str_nat :: "nat \<Rightarrow> string" where
  "str_nat n = (if n < 10 then [digit_char n] else str_nat (n div 10) @ [digit_char (n mod 10)])"

declare str_nat.simps [simp del]

definition str_int :: "int \<Rightarrow> string" where
  "str_int i = (if i < 0 then CHR ''-'' # str_nat (nat (- i)) else str_nat (nat i))"

text \<open>
  \<open>process_user\<close>, lines 48-81. \<open>not user.id\<close> holds for \<open>None\<close> and for 0.
  \<open>now\<close> is \<open>datetime.now().isoformat()\<close> at the time of the call.
\<close>

definition process_user ::
  "(string \<Rightarrow> string) \<Rightarrow> string \<Rightarrow> User \<Rightarrow> db \<Rightarrow> (exc + response) \<times> db" where
  "process_user upper now user db =
     (case id' user of
        None \<Rightarrow> (Inl (HTTPException 400 (Detail ''User ID is required'')), db)
      | Some uid \<Rightarrow>
          if uid = 0 then (Inl (HTTPException 400 (Detail ''User ID is required'')), db)
          else
            (Inr (ProcessedMessage ''User processed successfully'' uid),
             AList.update uid
               \<lparr> user_id = uid,
                 processed_data = processed_data_of upper user,
                 processing_timestamp = now,
                 analytics =
                   \<lparr> processing_time_ms = 150,
                     data_quality_score = 95 / 100,
                     confidence_level = 88 / 100 \<rparr> \<rparr>
               db))"

text \<open>\<open>get_processed_user\<close>, lines 83-89.\<close>

definition get_processed_user :: "int \<Rightarrow> db \<Rightarrow> exc + response" where
  "get_processed_user uid db =
     (case map_of db uid of
        None \<Rightarrow> Inl (HTTPException 404 (Detail ''Processed user data not found''))
      | Some user_data \<Rightarrow> Inr (UserData user_data))"

text \<open>\<open>get_all_processed_users\<close>, lines 91-94.\<close>

definition get_all_processed_users :: "db \<Rightarrow> ProcessedUserData list" where
  "get_all_processed_users db = map snd db"

text \<open>
  \<open>delete_processed_user\<close>, lines 96-105. \<open>pop\<close> hands the removed record to the
  handler, which binds it to \<open>deleted_data\<close> and answers with a message.
\<close>

definition delete_processed_user :: "int \<Rightarrow> db \<Rightarrow> (exc + response) \<times> db" where
  "delete_processed_user uid db =
     (case map_of db uid of
        None \<Rightarrow> (Inl (HTTPException 404 (Detail ''Processed user data not found'')), db)
      | Some deleted_data \<Rightarrow>
          (Inr (Message (''Processed data for user '' @ str_int uid @ '' deleted successfully'')),
           AList.delete uid db))"

text \<open>
  Lines 99-102 on their own are the delete operation of the record store: the membership
  test raises the 404, and otherwise \<open>pop\<close> removes the entry and returns the removed
  record to the handler that called it.
\<close>

definition store_delete :: "int \<Rightarrow> db \<Rightarrow> exc + ProcessedUserData \<times> db" where
  "store_delete uid db =
     (case map_of db uid of
        None \<Rightarrow> Inl (HTTPException 404 (Detail ''Processed user data not found''))
      | Some deleted_data \<Rightarrow> Inr (deleted_data, AList.delete uid db))"

text \<open>The stores the service can be in: empty at start, then changed by the two writers.\<close>

inductive reachable :: "db \<Rightarrow> bool" where
  start: "reachable []"
| processed: "reachable db \<Longrightarrow> reachable (snd (process_user upper now user db))"
| deleted: "reachable db \<Longrightarrow> reachable (snd (delete_processed_user uid db))"

section \<open>The analytics aggregation\<close>

text \<open>The fallback of lines 136-141.\<close>

definition estimate :: "string \<Rightarrow> int" where
  "estimate category =
     (if category = ''young'' then 25
      else if category = ''middle'' then 40
      else 60)"

text \<open>\<open>user["age"]\<close>: a missing key and a value that is no dictionary both raise.\<close>

definition subscript :: "json \<Rightarrow> string \<Rightarrow> exc + json" where
  "subscript v k =
     (case v of
        JObj kvs \<Rightarrow> (case map_of kvs k of None \<Rightarrow> Inl KeyError | Some x \<Rightarrow> Inr x)
      | _ \<Rightarrow> Inl TypeError)"

text \<open>
  The body of the \<open>try\<close>, lines 129-133: it raises (\<open>Inl\<close>), appends nothing
  (\<open>Inr None\<close>, the status is not 200) or appends a value (\<open>Inr (Some v)\<close>).
\<close>

definition lookup_age :: "reply \<Rightarrow> exc + json option" where
  "lookup_age r =
     (case r of
        Failed e \<Rightarrow> Inl (TransportError e)
      | Response status body \<Rightarrow>
          if status = 200 then
            (case body of
               None \<Rightarrow> Inl JSONDecodeError
             | Some user \<Rightarrow>
                 (case subscript user ''age'' of Inl e \<Rightarrow> Inl e | Inr v \<Rightarrow> Inr (Some v)))
          else Inr None)"

text \<open>The \<open>try\<close> with its bare \<open>except\<close>, lines 128-141: what \<open>ages\<close> is afterwards.\<close>

definition collect_age :: "reply \<Rightarrow> string \<Rightarrow> json list \<Rightarrow> json list" where
  "collect_age r category ages =
     (case lookup_age r of
        Inl e \<Rightarrow> ages @ [JInt (estimate category)]
      | Inr None \<Rightarrow> ages
      | Inr (Some v) \<Rightarrow> ages @ [v])"

text \<open>
  The loop of lines 123-141 over the values of the store. \<open>peer uid\<close> is the peer's answer
  to \<open>GET /users/{uid}\<close>; the last component is the list of the calls made.
\<close>

fun analytics_loop ::
  "(int \<Rightarrow> reply) \<Rightarrow> ProcessedUserData list \<Rightarrow> (string \<times> int) list \<Rightarrow> json list \<Rightarrow> int list
     \<Rightarrow> (string \<times> int) list \<times> json list \<times> int list" where
  "analytics_loop peer [] histogram ages calls = (histogram, ages, calls)"
| "analytics_loop peer (user_data # rest) histogram ages calls =
     (let category = age_category (processed_data user_data);
          histogram' = AList.update category
                    ((case map_of histogram category of None \<Rightarrow> 0 | Some n \<Rightarrow> n) + 1) histogram;
          ages' = collect_age (peer (user_id user_data)) category ages
      in analytics_loop peer rest histogram' ages' (calls @ [user_id user_data]))"

text \<open>
  \<open>sum(ages)\<close>: it starts from the integer 0 and adds the elements in turn; a boolean
  counts as 0 or 1, and anything that is no number raises \<open>TypeError\<close>.
\<close>

datatype number = NInt int | NFloat rat

fun py_add :: "number \<Rightarrow> json \<Rightarrow> exc + number" where
  "py_add (NInt a) (JInt b) = Inr (NInt (a + b))"
| "py_add (NInt a) (JBool b) = Inr (NInt (a + (if b then 1 else 0)))"
| "py_add (NInt a) (JFloat b) = Inr (NFloat (of_int a + b))"
| "py_add (NFloat a) (JInt b) = Inr (NFloat (a + of_int b))"
| "py_add (NFloat a) (JBool b) = Inr (NFloat (a + (if b then 1 else 0)))"
| "py_add (NFloat a) (JFloat b) = Inr (NFloat (a + b))"
| "py_add _ _ = Inl TypeError"

fun py_sum :: "number \<Rightarrow> json list \<Rightarrow> exc + number" where
  "py_sum acc [] = Inr acc"
| "py_sum acc (x # xs) = (case py_add acc x of Inl e \<Rightarrow> Inl e | Inr acc' \<Rightarrow> py_sum acc' xs)"

fun number_value :: "number \<Rightarrow> rat" where
  "number_value (NInt a) = of_int a"
| "number_value (NFloat a) = a"

text \<open>
  Line 143, on the exact values. The code divides in binary floating point: its quotient
  is the double nearest to this one, and a quotient too large for a double raises
  \<open>OverflowError\<close> there. The statements below rest on this function only where no
  rounding takes place.
\<close>

definition average :: "json list \<Rightarrow> exc + rat" where
  "average ages =
     (if ages \<noteq> [] then
        (case py_sum (NInt 0) ages of
           Inl e \<Rightarrow> Inl e
         | Inr s \<Rightarrow> Inr (number_value s / of_nat (length ages)))
      else Inr 0)"

text \<open>
  \<open>round(x, 2)\<close> on the exact value: to the nearest hundredth, a tie to the even one.
  The code rounds the double it holds, which can lie on the other side of a tie of the
  exact quotient (for 1203 / 40 the code gives 30.07, this function 30.08). The
  statements below apply it to 0, 22 and 65 / 2 only, where both agree.
\<close>

definition round2 :: "rat \<Rightarrow> rat" where
  "round2 x =
     (let y = x * 100; f = \<lfloor>y\<rfloor>; d = y - of_int f
      in of_int (if d < 1 / 2 then f else if 1 / 2 < d then f + 1
                 else if even f then f else f + 1) / 100)"

text \<open>\<open>get_analytics\<close>, lines 107-157: the response and the calls made to the peer.\<close>

definition get_analytics :: "(int \<Rightarrow> reply) \<Rightarrow> db \<Rightarrow> (exc + response) \<times> int list" where
  "get_analytics peer db =
     (if db = [] then
        (Inr (Summary \<lparr> total_users = 0, average_age = 0, age_distribution = [],
                        processing_stats = None \<rparr>), [])
      else
        (case analytics_loop peer (map snd db)
                [(''young'', 0), (''middle'', 0), (''senior'', 0)] [] [] of
           (histogram, ages, calls) \<Rightarrow>
             (case average ages of
                Inl e \<Rightarrow> (Inl e, calls)
              | Inr average_age' \<Rightarrow>
                  (Inr (Summary
                     \<lparr> total_users = length db,
                       average_age = round2 average_age',
                       age_distribution = histogram,
                       processing_stats =
                         Some \<lparr> total_processed = length db,
                                avg_processing_time_ms = 150,
                                avg_confidence_level = 88 / 100,
                                avg_data_quality_score = 95 / 100 \<rparr> \<rparr>),
                   calls))))"

section \<open>Batch processing\<close>

text \<open>
  \<open>for user in users\<close>: a list gives its elements, a dictionary its keys, a string its
  characters; nothing else can be iterated.
\<close>

fun iterate :: "json \<Rightarrow> json list option" where
  "iterate (JArr xs) = Some xs"
| "iterate (JObj kvs) = Some (map (\<lambda>kv. JStr (fst kv)) kvs)"
| "iterate (JStr s) = Some (map (\<lambda>c. JStr [c]) s)"
| "iterate _ = None"

text \<open>
  The loop of lines 209-216. \<open>post k user\<close> is the peer's answer to the \<open>k\<close>-th
  submission, of \<open>user\<close>. A submission that raises leaves the loop.
\<close>

fun submit_all :: "(nat \<Rightarrow> json \<Rightarrow> reply) \<Rightarrow> nat \<Rightarrow> json list \<Rightarrow> nat \<Rightarrow> exc + nat" where
  "submit_all post k [] processed_count = Inr processed_count"
| "submit_all post k (user # users) processed_count =
     (case post k user of
        Failed e \<Rightarrow> Inl (TransportError e)
      | Response status body \<Rightarrow>
          submit_all post (Suc k) users
            (if status = 200 then processed_count + 1 else processed_count))"

text \<open>The body of the \<open>try\<close>, lines 202-224; \<open>fetch\<close> is the answer to \<open>GET /users\<close>.\<close>

definition batch_body :: "reply \<Rightarrow> (nat \<Rightarrow> json \<Rightarrow> reply) \<Rightarrow> exc + response" where
  "batch_body fetch post =
     (case fetch of
        Failed e \<Rightarrow> Inl (TransportError e)
      | Response status body \<Rightarrow>
          if status = 200 then
            (case body of
               None \<Rightarrow> Inl JSONDecodeError
             | Some users \<Rightarrow>
                 (case iterate users of
                    None \<Rightarrow> Inl TypeError
                  | Some us \<Rightarrow>
                      (case submit_all post 0 us 0 of
                         Inl e \<Rightarrow> Inl e
                       | Inr processed_count \<Rightarrow>
                           Inr (BatchResult ''Batch processing completed''
                                  (length us) processed_count))))
          else Inl (HTTPException 500 (Detail ''Failed to get users from service1'')))"

text \<open>
  \<open>batch_process_users\<close>, lines 198-226: \<open>except Exception\<close> turns whatever the body
  raised, its own \<open>HTTPException\<close> included, into a 500.
\<close>

definition batch_process_users :: "reply \<Rightarrow> (nat \<Rightarrow> json \<Rightarrow> reply) \<Rightarrow> exc + response" where
  "batch_process_users fetch post =
     (case batch_body fetch post of
        Inl e \<Rightarrow> Inl (HTTPException 500 (BatchProcessingFailed e))
      | Inr r \<Rightarrow> Inr r)"


text \<open>
  For the statements about the batch: the users a fetch hands to the loop (\<open>None\<close> when
  the fetch raises, is not answered with 200, or its body cannot be parsed or iterated),
  the replies the peer gives to the submissions of a list of users, in order, and whether
  a reply is an exception of the client or a response with status 200.
\<close>

fun submissions :: "(nat \<Rightarrow> json \<Rightarrow> reply) \<Rightarrow> nat \<Rightarrow> json list \<Rightarrow> reply list" where
  "submissions post k [] = []"
| "submissions post k (user # users) = post k user # submissions post (Suc k) users"

fun raised :: "reply \<Rightarrow> bool" where
  "raised (Failed e) = True"
| "raised (Response status body) = False"

fun accepted :: "reply \<Rightarrow> bool" where
  "accepted (Failed e) = False"
| "accepted (Response status body) = (status = 200)"

definition fetched_users :: "reply \<Rightarrow> json list option" where
  "fetched_users fetch =
     (case fetch of
        Failed e \<Rightarrow> None
      | Response status body \<Rightarrow>
          if status = 200 then (case body of None \<Rightarrow> None | Some users \<Rightarrow> iterate users)
          else None)"

section \<open>The categories of stored records\<close>

text \<open>A record whose category is one of the three that \<open>process_user\<close> assigns.\<close>

definition known_category :: "ProcessedUserData \<Rightarrow> bool" where
  "known_category user_data =
     (age_category (processed_data user_data) \<in> {''young'', ''middle'', ''senior''})"

section \<open>Two users for the concrete cases\<close>

definition ann :: User where
  "ann = \<lparr> id' = Some 1, name = ''Ann'', email = ''ann@example.com'', age = 22 \<rparr>"

definition bob :: User where
  "bob = \<lparr> id' = Some 2, name = ''Bob'', email = ''bob.example.com'', age = 35 \<rparr>"

section \<open>Properties of the field derivation\<close>

lemma split_str_nonempty: "split_str sep s \<noteq> []"
  by (induction s) (simp_all add: Let_def)

lemma split_str_no_sep: "sep \<notin> set s \<Longrightarrow> split_str sep s = [s]"
  by (induction s) (auto simp add: Let_def)

lemma split_str_tl: "sep \<in> set s \<Longrightarrow> tl (split_str sep s) \<noteq> []"
  by (induction s) (auto simp add: Let_def split_str_nonempty)

lemma last_split_str_Cons:
  "last (split_str sep (c # cs)) =
     (if sep \<in> set cs then last (split_str sep cs) else if c = sep then cs else c # cs)"
  using split_str_nonempty[of sep cs] split_str_tl[of sep cs]
  by (cases "split_str sep cs") (auto simp add: Let_def split_str_no_sep)

lemma last_split_str_suffix:
  "sep \<in> set s \<Longrightarrow> \<exists>pre. s = pre @ sep # last (split_str sep s)"
proof (induction s)
  case Nil
  then show ?case by simp
next
  case (Cons c cs)
  show ?case
  proof (cases "sep \<in> set cs")
    case True
    then obtain pre where pre: "cs = pre @ sep # last (split_str sep cs)"
      using Cons.IH by blast
    have eq: "last (split_str sep (c # cs)) = last (split_str sep cs)"
      using True by (simp only: last_split_str_Cons if_True)
    have "c # cs = (c # pre) @ sep # last (split_str sep (c # cs))"
      by (metis pre eq append_Cons)
    then show ?thesis by blast
  next
    case False
    then have "c = sep" using Cons.prems by simp
    then have "c # cs = [] @ sep # last (split_str sep (c # cs))"
      using False by (simp del: split_str.simps add: last_split_str_Cons)
    then show ?thesis by blast
  qed
qed

lemma last_split_str_no_sep: "sep \<notin> set (last (split_str sep s))"
proof (induction s)
  case Nil
  show ?case by simp
next
  case (Cons c cs)
  then show ?case
    by (auto simp del: split_str.simps simp add: last_split_str_Cons)
qed

text \<open>
  Claim C4. For every user, the stored category is \<open>young\<close> exactly when the age is
  below 30, \<open>middle\<close> exactly when it is at least 30 and below 50, \<open>senior\<close> exactly
  when it is at least 50, and \<open>is_adult\<close> holds exactly when the age is at least 18.
\<close>

theorem derive_age_category_is_adult:
  "(age_category (processed_data_of upper user) = ''young'' \<longleftrightarrow> age user < 30) \<and>
   (age_category (processed_data_of upper user) = ''middle'' \<longleftrightarrow> 30 \<le> age user \<and> age user < 50) \<and>
   (age_category (processed_data_of upper user) = ''senior'' \<longleftrightarrow> 50 \<le> age user) \<and>
   (is_adult (processed_data_of upper user) \<longleftrightarrow> 18 \<le> age user)"
  by (simp add: processed_data_of_def)

text \<open>The boundary ages 29/30, 49/50 and 17/18, as instances of the theorem.\<close>

theorem derive_age_category_boundaries:
  "age_category (processed_data_of ascii_upper \<lparr>id' = Some 1, name = ''Ann'', email = ''a@b.com'', age = 29\<rparr>) = ''young'' \<and>
   age_category (processed_data_of ascii_upper \<lparr>id' = Some 1, name = ''Ann'', email = ''a@b.com'', age = 30\<rparr>) = ''middle'' \<and>
   age_category (processed_data_of ascii_upper \<lparr>id' = Some 1, name = ''Ann'', email = ''a@b.com'', age = 49\<rparr>) = ''middle'' \<and>
   age_category (processed_data_of ascii_upper \<lparr>id' = Some 1, name = ''Ann'', email = ''a@b.com'', age = 50\<rparr>) = ''senior'' \<and>
   \<not> is_adult (processed_data_of ascii_upper \<lparr>id' = Some 1, name = ''Ann'', email = ''a@b.com'', age = 17\<rparr>) \<and>
   is_adult (processed_data_of ascii_upper \<lparr>id' = Some 1, name = ''Ann'', email = ''a@b.com'', age = 18\<rparr>)"
  using derive_age_category_is_adult [of ascii_upper "\<lparr>id' = Some 1, name = ''Ann'', email = ''a@b.com'', age = 29\<rparr>"]
    derive_age_category_is_adult [of ascii_upper "\<lparr>id' = Some 1, name = ''Ann'', email = ''a@b.com'', age = 30\<rparr>"]
    derive_age_category_is_adult [of ascii_upper "\<lparr>id' = Some 1, name = ''Ann'', email = ''a@b.com'', age = 49\<rparr>"]
    derive_age_category_is_adult [of ascii_upper "\<lparr>id' = Some 1, name = ''Ann'', email = ''a@b.com'', age = 50\<rparr>"]
    derive_age_category_is_adult [of ascii_upper "\<lparr>id' = Some 1, name = ''Ann'', email = ''a@b.com'', age = 17\<rparr>"]
    derive_age_category_is_adult [of ascii_upper "\<lparr>id' = Some 1, name = ''Ann'', email = ''a@b.com'', age = 18\<rparr>"]
  by simp

text \<open>
  Claim C9. When the email contains \<open>@\<close>, \<open>email_domain\<close> is the part of the email
  after its last \<open>@\<close>: the email ends with \<open>@\<close> followed by the domain, and the domain
  holds no \<open>@\<close>. Otherwise \<open>email_domain\<close> is \<open>unknown\<close>.
\<close>

theorem derive_email_domain:
  "(CHR ''@'' \<in> set (email user) \<longrightarrow>
      (\<exists>pre. email user = pre @ ''@'' @ email_domain (processed_data_of upper user)) \<and>
      CHR ''@'' \<notin> set (email_domain (processed_data_of upper user))) \<and>
   (CHR ''@'' \<notin> set (email user) \<longrightarrow>
      email_domain (processed_data_of upper user) = ''unknown'')"
  using last_split_str_suffix [of "CHR ''@''" "email user"]
    last_split_str_no_sep [of "CHR ''@''" "email user"]
  by (simp add: processed_data_of_def)

text \<open>The two examples of the specification: \<open>a@b.com\<close> and \<open>noatsign\<close>.\<close>

theorem derive_email_domain_examples:
  "CHR ''@'' \<in> set ''a@b.com'' \<and>
   (\<exists>pre. ''a@b.com'' = pre @ ''@'' @ email_domain (processed_data_of ascii_upper \<lparr>id' = Some 1, name = ''Ann'', email = ''a@b.com'', age = 29\<rparr>)) \<and>
   email_domain (processed_data_of ascii_upper \<lparr>id' = Some 1, name = ''Ann'', email = ''a@b.com'', age = 29\<rparr>) = ''b.com'' \<and>
   CHR ''@'' \<notin> set ''noatsign'' \<and>
   email_domain (processed_data_of ascii_upper \<lparr>id' = Some 1, name = ''Ann'', email = ''noatsign'', age = 29\<rparr>) = ''unknown''"
proof -
  have a: "CHR ''@'' \<in> set ''a@b.com''" by simp
  have n: "CHR ''@'' \<notin> set ''noatsign''" by simp
  have d: "email_domain (processed_data_of ascii_upper \<lparr>id' = Some 1, name = ''Ann'', email = ''a@b.com'', age = 29\<rparr>) = ''b.com''"
    by (simp add: processed_data_of_def)
  show ?thesis
    using a n d
      derive_email_domain [of "\<lparr>id' = Some 1, name = ''Ann'', email = ''a@b.com'', age = 29\<rparr>" ascii_upper]
      derive_email_domain [of "\<lparr>id' = Some 1, name = ''Ann'', email = ''noatsign'', age = 29\<rparr>" ascii_upper]
    by simp
qed

section \<open>Properties of the record store endpoints\<close>

lemma get_after_update:
  "get_processed_user uid (AList.update uid user_data db) = Inr (UserData user_data)"
  by (simp add: get_processed_user_def AList.update_conv')

lemma delete_filter: "AList.delete uid db = filter (\<lambda>kv. fst kv \<noteq> uid) db"
  by (induction db) auto

lemma get_after_delete:
  "get_processed_user uid (snd (delete_processed_user uid db)) =
     Inl (HTTPException 404 (Detail ''Processed user data not found''))"
  by (cases "map_of db uid")
    (simp_all add: delete_processed_user_def get_processed_user_def AList.delete_conv')

lemma ann_store:
  "snd (process_user ascii_upper ''2024-01-01T00:00:00'' ann []) =
     [(1, \<lparr> user_id = 1,
            processed_data =
              \<lparr> name_length = 3, email_domain = ''example.com'', age_category = ''young'',
                name_uppercase = ''ANN'', email_uppercase = ''ANN@EXAMPLE.COM'',
                age_squared = 484, is_adult = True \<rparr>,
            processing_timestamp = ''2024-01-01T00:00:00'',
            analytics = \<lparr> processing_time_ms = 150, data_quality_score = 95 / 100,
                          confidence_level = 88 / 100 \<rparr> \<rparr>)]"
  by (simp add: process_user_def processed_data_of_def ann_def ascii_upper_def)

lemma str_int_1: "str_int 1 = ''1''"
  by (simp add: str_int_def str_nat.simps digit_char_def)

text \<open>
  Claim C5. For a user whose identifier is present and not 0, \<open>process_user\<close> answers
  200 and a following \<open>get_processed_user\<close> for that identifier returns exactly the record
  derived from that user (with the timestamp of the call and the constant analytics
  block); a following \<open>delete_processed_user\<close> answers 200, and \<open>get_processed_user\<close>
  after it answers 404.
\<close>

theorem process_user_get_delete_roundtrip:
  "id' user = Some uid \<and> uid \<noteq> 0 \<longrightarrow>
     fst (process_user upper now user db) =
       Inr (ProcessedMessage ''User processed successfully'' uid) \<and>
     get_processed_user uid (snd (process_user upper now user db)) =
       Inr (UserData
         \<lparr> user_id = uid,
           processed_data = processed_data_of upper user,
           processing_timestamp = now,
           analytics = \<lparr> processing_time_ms = 150, data_quality_score = 95 / 100,
                         confidence_level = 88 / 100 \<rparr> \<rparr>) \<and>
     status_code (fst (delete_processed_user uid (snd (process_user upper now user db)))) = 200 \<and>
     get_processed_user uid
       (snd (delete_processed_user uid (snd (process_user upper now user db)))) =
       Inl (HTTPException 404 (Detail ''Processed user data not found''))"
proof (intro impI)
  assume valid: "id' user = Some uid \<and> uid \<noteq> 0"
  let ?db = "snd (process_user upper now user db)"
  have stored: "?db = AList.update uid
      \<lparr> user_id = uid, processed_data = processed_data_of upper user,
        processing_timestamp = now,
        analytics = \<lparr> processing_time_ms = 150, data_quality_score = 95 / 100,
                      confidence_level = 88 / 100 \<rparr> \<rparr> db"
    using valid by (simp add: process_user_def)
  have posted: "fst (process_user upper now user db) =
      Inr (ProcessedMessage ''User processed successfully'' uid)"
    using valid by (simp add: process_user_def)
  have got: "get_processed_user uid ?db =
      Inr (UserData
        \<lparr> user_id = uid, processed_data = processed_data_of upper user,
          processing_timestamp = now,
          analytics = \<lparr> processing_time_ms = 150, data_quality_score = 95 / 100,
                        confidence_level = 88 / 100 \<rparr> \<rparr>)"
    unfolding stored by (rule get_after_update)
  have "map_of ?db uid \<noteq> None"
    unfolding stored by (simp add: AList.update_conv')
  then have removed: "status_code (fst (delete_processed_user uid ?db)) = 200"
    by (auto simp add: delete_processed_user_def)
  have gone: "get_processed_user uid (snd (delete_processed_user uid ?db)) =
      Inl (HTTPException 404 (Detail ''Processed user data not found''))"
    by (rule get_after_delete)
  from posted got removed gone show
    "fst (process_user upper now user db) =
       Inr (ProcessedMessage ''User processed successfully'' uid) \<and>
     get_processed_user uid ?db =
       Inr (UserData
         \<lparr> user_id = uid,
           processed_data = processed_data_of upper user,
           processing_timestamp = now,
           analytics = \<lparr> processing_time_ms = 150, data_quality_score = 95 / 100,
                         confidence_level = 88 / 100 \<rparr> \<rparr>) \<and>
     status_code (fst (delete_processed_user uid ?db)) = 200 \<and>
     get_processed_user uid (snd (delete_processed_user uid ?db)) =
       Inl (HTTPException 404 (Detail ''Processed user data not found''))"
    by (intro conjI)
qed

text \<open>The round trip for the user \<open>ann\<close> and the empty store.\<close>

theorem process_user_get_delete_roundtrip_ann:
  "id' ann = Some 1 \<and> (1::int) \<noteq> 0 \<and>
   get_processed_user 1 (snd (process_user ascii_upper ''2024-01-01T00:00:00'' ann [])) =
     Inr (UserData
       \<lparr> user_id = 1,
         processed_data =
           \<lparr> name_length = 3, email_domain = ''example.com'', age_category = ''young'',
             name_uppercase = ''ANN'', email_uppercase = ''ANN@EXAMPLE.COM'',
             age_squared = 484, is_adult = True \<rparr>,
         processing_timestamp = ''2024-01-01T00:00:00'',
         analytics = \<lparr> processing_time_ms = 150, data_quality_score = 95 / 100,
                       confidence_level = 88 / 100 \<rparr> \<rparr>) \<and>
   get_processed_user 1
     (snd (delete_processed_user 1
        (snd (process_user ascii_upper ''2024-01-01T00:00:00'' ann [])))) =
     Inl (HTTPException 404 (Detail ''Processed user data not found''))"
proof -
  have i: "id' ann = Some 1 \<and> (1::int) \<noteq> 0" by (simp add: ann_def)
  have p: "processed_data_of ascii_upper ann =
      \<lparr> name_length = 3, email_domain = ''example.com'', age_category = ''young'',
        name_uppercase = ''ANN'', email_uppercase = ''ANN@EXAMPLE.COM'',
        age_squared = 484, is_adult = True \<rparr>"
    by (simp add: processed_data_of_def ann_def ascii_upper_def)
  show ?thesis
    using i p process_user_get_delete_roundtrip
      [of ann 1 ascii_upper "''2024-01-01T00:00:00''" "[]"]
    by simp
qed

text \<open>
  The handler is the delete operation of the store followed by the answer: a message that
  names the identifier.
\<close>

lemma delete_processed_user_store_delete:
  "delete_processed_user uid db =
     (case store_delete uid db of
        Inl e \<Rightarrow> (Inl e, db)
      | Inr (deleted_data, db') \<Rightarrow>
          (Inr (Message (''Processed data for user '' @ str_int uid @ '' deleted successfully'')),
           db'))"
  by (simp add: delete_processed_user_def store_delete_def split: option.splits)

lemma delete_processed_user_outcomes:
  "(uid \<notin> fst ` set db \<longrightarrow>
      delete_processed_user uid db =
        (Inl (HTTPException 404 (Detail ''Processed user data not found'')), db)) \<and>
   (uid \<in> fst ` set db \<longrightarrow>
      fst (delete_processed_user uid db) =
        Inr (Message (''Processed data for user '' @ str_int uid @ '' deleted successfully'')) \<and>
      snd (delete_processed_user uid db) = filter (\<lambda>kv. fst kv \<noteq> uid) db \<and>
      map_of (snd (delete_processed_user uid db)) uid = None \<and>
      (\<forall>k. k \<noteq> uid \<longrightarrow> map_of (snd (delete_processed_user uid db)) k = map_of db k))"
proof (cases "map_of db uid")
  case None
  then have "uid \<notin> fst ` set db" by (simp add: map_of_eq_None_iff)
  then show ?thesis using None by (simp add: delete_processed_user_def)
next
  case (Some r)
  then have "uid \<in> fst ` set db" by (metis map_of_eq_None_iff option.distinct(1))
  moreover have "snd (delete_processed_user uid db) = AList.delete uid db"
    using Some by (simp add: delete_processed_user_def)
  moreover have "fst (delete_processed_user uid db) =
      Inr (Message (''Processed data for user '' @ str_int uid @ '' deleted successfully''))"
    using Some by (simp add: delete_processed_user_def)
  moreover have "AList.delete uid db = filter (\<lambda>kv. fst kv \<noteq> uid) db"
    by (rule delete_filter)
  moreover have "map_of (filter (\<lambda>kv. fst kv \<noteq> uid) db) = (map_of db)(uid := None)"
    unfolding delete_filter [symmetric] by (rule AList.delete_conv')
  ultimately show ?thesis
    by simp
qed

text \<open>
  Claim C6. When the identifier is absent from the store, the delete operation fails with
  the 404 (so does the handler, and the store is left as it is). Otherwise the operation
  returns the record that was stored under the identifier, together with the store
  without that entry: every other entry is kept, in its order, the identifier is no
  longer found, and the handler, which answers 200, leaves the same store.
\<close>

theorem store_delete_contract:
  "(uid \<notin> fst ` set db \<longrightarrow>
      store_delete uid db = Inl (HTTPException 404 (Detail ''Processed user data not found'')) \<and>
      status_code (fst (delete_processed_user uid db)) = 404 \<and>
      snd (delete_processed_user uid db) = db) \<and>
   (uid \<in> fst ` set db \<longrightarrow>
      (\<exists>removed. map_of db uid = Some removed \<and> (uid, removed) \<in> set db \<and>
         store_delete uid db = Inr (removed, filter (\<lambda>kv. fst kv \<noteq> uid) db)) \<and>
      snd (delete_processed_user uid db) = filter (\<lambda>kv. fst kv \<noteq> uid) db \<and>
      status_code (fst (delete_processed_user uid db)) = 200 \<and>
      map_of (filter (\<lambda>kv. fst kv \<noteq> uid) db) uid = None \<and>
      (\<forall>k. k \<noteq> uid \<longrightarrow> map_of (filter (\<lambda>kv. fst kv \<noteq> uid) db) k = map_of db k))"
proof (cases "map_of db uid")
  case None
  then have "uid \<notin> fst ` set db" by (simp add: map_of_eq_None_iff)
  then show ?thesis
    using None by (simp add: store_delete_def delete_processed_user_def)
next
  case (Some removed)
  then have present: "uid \<in> fst ` set db"
    by (metis map_of_eq_None_iff option.distinct(1))
  have entry: "(uid, removed) \<in> set db"
    using Some by (rule map_of_SomeD)
  have popped: "store_delete uid db = Inr (removed, filter (\<lambda>kv. fst kv \<noteq> uid) db)"
    using Some by (simp add: store_delete_def delete_filter)
  have handler: "snd (delete_processed_user uid db) = filter (\<lambda>kv. fst kv \<noteq> uid) db"
    using Some by (simp add: delete_processed_user_def delete_filter)
  have ok: "status_code (fst (delete_processed_user uid db)) = 200"
    using Some by (simp add: delete_processed_user_def)
  have lookups: "map_of (filter (\<lambda>kv. fst kv \<noteq> uid) db) = (map_of db)(uid := None)"
    unfolding delete_filter [symmetric] by (rule AList.delete_conv')
  show ?thesis
    using present Some entry popped handler ok by (simp add: lookups)
qed

text \<open>The two cases for the store that holds \<open>ann\<close> only.\<close>

theorem store_delete_contract_ann:
  "(1::int) \<in> fst ` set (snd (process_user ascii_upper ''2024-01-01T00:00:00'' ann [])) \<and>
   store_delete 1 (snd (process_user ascii_upper ''2024-01-01T00:00:00'' ann [])) =
     Inr (\<lparr> user_id = 1,
            processed_data =
              \<lparr> name_length = 3, email_domain = ''example.com'', age_category = ''young'',
                name_uppercase = ''ANN'', email_uppercase = ''ANN@EXAMPLE.COM'',
                age_squared = 484, is_adult = True \<rparr>,
            processing_timestamp = ''2024-01-01T00:00:00'',
            analytics = \<lparr> processing_time_ms = 150, data_quality_score = 95 / 100,
                          confidence_level = 88 / 100 \<rparr> \<rparr>, []) \<and>
   snd (delete_processed_user 1 (snd (process_user ascii_upper ''2024-01-01T00:00:00'' ann []))) = [] \<and>
   (7::int) \<notin> fst ` set (snd (process_user ascii_upper ''2024-01-01T00:00:00'' ann [])) \<and>
   store_delete 7 (snd (process_user ascii_upper ''2024-01-01T00:00:00'' ann [])) =
     Inl (HTTPException 404 (Detail ''Processed user data not found'')) \<and>
   status_code (fst (delete_processed_user 7
     (snd (process_user ascii_upper ''2024-01-01T00:00:00'' ann [])))) = 404"
proof -
  let ?db = "snd (process_user ascii_upper ''2024-01-01T00:00:00'' ann [])"
  have present: "(1::int) \<in> fst ` set ?db" by (simp add: ann_store)
  have absent: "(7::int) \<notin> fst ` set ?db" by (simp add: ann_store)
  have rest: "filter (\<lambda>kv. fst kv \<noteq> 1) ?db = []" by (simp add: ann_store)
  have stored: "map_of ?db 1 =
      Some \<lparr> user_id = 1,
            processed_data =
              \<lparr> name_length = 3, email_domain = ''example.com'', age_category = ''young'',
                name_uppercase = ''ANN'', email_uppercase = ''ANN@EXAMPLE.COM'',
                age_squared = 484, is_adult = True \<rparr>,
            processing_timestamp = ''2024-01-01T00:00:00'',
            analytics = \<lparr> processing_time_ms = 150, data_quality_score = 95 / 100,
                          confidence_level = 88 / 100 \<rparr> \<rparr>"
    by (simp add: ann_store)
  from store_delete_contract [of 1 ?db] present rest stored
  have one: "store_delete 1 ?db =
      Inr (\<lparr> user_id = 1,
            processed_data =
              \<lparr> name_length = 3, email_domain = ''example.com'', age_category = ''young'',
                name_uppercase = ''ANN'', email_uppercase = ''ANN@EXAMPLE.COM'',
                age_squared = 484, is_adult = True \<rparr>,
            processing_timestamp = ''2024-01-01T00:00:00'',
            analytics = \<lparr> processing_time_ms = 150, data_quality_score = 95 / 100,
                          confidence_level = 88 / 100 \<rparr> \<rparr>, []) \<and>
      snd (delete_processed_user 1 ?db) = []"
    by auto
  from store_delete_contract [of 7 ?db] absent
  have seven: "store_delete 7 ?db =
      Inl (HTTPException 404 (Detail ''Processed user data not found'')) \<and>
      status_code (fst (delete_processed_user 7 ?db)) = 404"
    by simp
  from present absent one seven show ?thesis by simp
qed

section \<open>Properties of the analytics aggregation\<close>

text \<open>
  Claim C8. For the empty store and any peer, \<open>get_analytics\<close> returns the summary with
  \<open>total_users\<close> 0, \<open>average_age\<close> 0, the empty distribution and the empty statistics,
  and makes no call to the peer.
\<close>

theorem get_analytics_empty_store:
  "get_analytics peer [] =
     (Inr (Summary \<lparr> total_users = 0, average_age = 0, age_distribution = [],
                     processing_stats = None \<rparr>), [])"
  by (simp add: get_analytics_def)

text \<open>
  What one pass of the \<open>try\<close> adds to \<open>ages\<close>: the estimate when the lookup raises,
  nothing when the peer answers with a status other than 200.
\<close>

lemma collect_age_raised:
  "lookup_age r = Inl e \<Longrightarrow> collect_age r category ages = ages @ [JInt (estimate category)]"
  by (simp add: collect_age_def)

lemma collect_age_not_200:
  "status \<noteq> 200 \<Longrightarrow> collect_age (Response status body) category ages = ages"
  by (simp add: collect_age_def lookup_age_def)

subsection \<open>The fallback when every lookup raises\<close>

lemma analytics_loop_ages_all_raised:
  "\<forall>r \<in> set rs. \<exists>e. lookup_age (peer (user_id r)) = Inl e \<Longrightarrow>
   fst (snd (analytics_loop peer rs h ages calls)) =
     ages @ map (\<lambda>r. JInt (estimate (age_category (processed_data r)))) rs"
proof (induction rs arbitrary: h ages calls)
  case Nil
  show ?case by simp
next
  case (Cons r rs)
  from Cons.prems obtain e where e: "lookup_age (peer (user_id r)) = Inl e"
    by auto
  from Cons.prems have rest: "\<forall>r \<in> set rs. \<exists>e. lookup_age (peer (user_id r)) = Inl e"
    by simp
  show ?case
    by (simp add: Let_def collect_age_raised [OF e] Cons.IH [OF rest])
qed

lemma analytics_loop_calls:
  "snd (snd (analytics_loop peer rs h ages calls)) = calls @ map user_id rs"
  by (induction rs arbitrary: h ages calls) (simp_all add: Let_def)

lemma py_sum_ints: "py_sum (NInt a) (map JInt ns) = Inr (NInt (a + sum_list ns))"
  by (induction ns arbitrary: a) (simp_all add: add.assoc)

lemma average_ints:
  "ns \<noteq> [] \<Longrightarrow> average (map JInt ns) = Inr (of_int (sum_list ns) / of_nat (length ns))"
  by (simp add: average_def py_sum_ints)

text \<open>
  So when every lookup of a non-empty store raises (the peer cannot be reached), the
  aggregation returns a summary, with status 200, after one call per record.
\<close>

lemma get_analytics_all_raised:
  assumes "db \<noteq> []"
    and "\<forall>kv \<in> set db. \<exists>e. lookup_age (peer (user_id (snd kv))) = Inl e"
  shows "status_code (fst (get_analytics peer db)) = 200 \<and>
    snd (get_analytics peer db) = map (\<lambda>kv. user_id (snd kv)) db"
proof -
  let ?h = "[(''young'', 0::int), (''middle'', 0), (''senior'', 0)]"
  let ?ns = "map (\<lambda>kv. estimate (age_category (processed_data (snd kv)))) db"
  obtain h ages calls where loop:
    "analytics_loop peer (map snd db) ?h [] [] = (h, ages, calls)"
    by (metis prod_cases3)
  have raised: "\<forall>r \<in> set (map snd db). \<exists>e. lookup_age (peer (user_id r)) = Inl e"
    using assms(2) by simp
  have "ages = map JInt ?ns"
    using analytics_loop_ages_all_raised [OF raised, of ?h "[]" "[]"] loop
    by (simp add: comp_def)
  moreover have "?ns \<noteq> []"
    using assms(1) by simp
  ultimately obtain q where avg: "average ages = Inr q"
    using average_ints [of ?ns] by simp
  have calls: "calls = map (\<lambda>kv. user_id (snd kv)) db"
    using analytics_loop_calls [of peer "map snd db" ?h "[]" "[]"] loop
    by (simp add: comp_def)
  show ?thesis
    using assms(1) loop avg calls by (simp add: get_analytics_def)
qed

subsection \<open>Where the aggregation departs from the fallback policy\<close>

lemma bob_store:
  "snd (process_user ascii_upper ''2024-01-02T00:00:00'' bob
          (snd (process_user ascii_upper ''2024-01-01T00:00:00'' ann []))) =
     [(1, \<lparr> user_id = 1,
            processed_data =
              \<lparr> name_length = 3, email_domain = ''example.com'', age_category = ''young'',
                name_uppercase = ''ANN'', email_uppercase = ''ANN@EXAMPLE.COM'',
                age_squared = 484, is_adult = True \<rparr>,
            processing_timestamp = ''2024-01-01T00:00:00'',
            analytics = \<lparr> processing_time_ms = 150, data_quality_score = 95 / 100,
                          confidence_level = 88 / 100 \<rparr> \<rparr>),
      (2, \<lparr> user_id = 2,
            processed_data =
              \<lparr> name_length = 3, email_domain = ''unknown'', age_category = ''middle'',
                name_uppercase = ''BOB'', email_uppercase = ''BOB.EXAMPLE.COM'',
                age_squared = 1225, is_adult = True \<rparr>,
            processing_timestamp = ''2024-01-02T00:00:00'',
            analytics = \<lparr> processing_time_ms = 150, data_quality_score = 95 / 100,
                          confidence_level = 88 / 100 \<rparr> \<rparr>)]"
  unfolding ann_store
  by (simp add: process_user_def processed_data_of_def bob_def ascii_upper_def)

lemma round2_0: "round2 0 = 0"
  by (simp add: round2_def)

lemma round2_22: "round2 22 = 22"
  by (simp add: round2_def)

text \<open>
  Claim C1 at a failing input. The store holds \<open>ann\<close> (category \<open>young\<close>) and the peer
  answers her lookup with status 404. The loop counts her in the distribution and calls
  the peer once, but \<open>ages\<close> stays empty: no estimate 25 is contributed, and the
  average of the summary is 0.
\<close>

theorem get_analytics_non_200_no_estimate:
  "analytics_loop (\<lambda>uid. Response 404 None)
     (map snd (snd (process_user ascii_upper ''2024-01-01T00:00:00'' ann [])))
     [(''young'', 0), (''middle'', 0), (''senior'', 0)] [] [] =
     ([(''young'', 1), (''middle'', 0), (''senior'', 0)], [], [1]) \<and>
   get_analytics (\<lambda>uid. Response 404 None)
     (snd (process_user ascii_upper ''2024-01-01T00:00:00'' ann [])) =
     (Inr (Summary
        \<lparr> total_users = 1, average_age = 0,
          age_distribution = [(''young'', 1), (''middle'', 0), (''senior'', 0)],
          processing_stats =
            Some \<lparr> total_processed = 1, avg_processing_time_ms = 150,
                   avg_confidence_level = 88 / 100, avg_data_quality_score = 95 / 100 \<rparr> \<rparr>),
      [1])"
  by (simp add: ann_store get_analytics_def collect_age_def lookup_age_def average_def round2_0)

text \<open>
  Claim C2 at a failing input. The store holds \<open>ann\<close> and \<open>bob\<close>; the peer answers the
  lookup of \<open>ann\<close> with her age 22 and the lookup of \<open>bob\<close> with status 503. The
  summary counts two users and its average is 22, the sum of the one collected age
  divided by 1, not a sum over both records divided by 2.
\<close>

theorem get_analytics_average_over_collected:
  "get_analytics
     (\<lambda>uid. if uid = 1 then Response 200 (Some (JObj [(''id'', JInt 1), (''age'', JInt 22)]))
            else Response 503 None)
     (snd (process_user ascii_upper ''2024-01-02T00:00:00'' bob
             (snd (process_user ascii_upper ''2024-01-01T00:00:00'' ann [])))) =
     (Inr (Summary
        \<lparr> total_users = 2, average_age = 22,
          age_distribution = [(''young'', 1), (''middle'', 1), (''senior'', 0)],
          processing_stats =
            Some \<lparr> total_processed = 2, avg_processing_time_ms = 150,
                   avg_confidence_level = 88 / 100, avg_data_quality_score = 95 / 100 \<rparr> \<rparr>),
      [1, 2])"
  by (simp add: bob_store get_analytics_def collect_age_def lookup_age_def subscript_def
      average_def round2_22)

text \<open>
  Claim C3 at a failing input. The store holds \<open>ann\<close> and the peer answers her lookup
  with status 200 and a body whose \<open>age\<close> is the string \<open>22\<close>. The value is appended
  as it is, \<open>sum\<close> raises \<open>TypeError\<close> outside the \<open>try\<close>, and the client sees 500.
\<close>

theorem get_analytics_non_numeric_age_raises:
  "get_analytics
     (\<lambda>uid. Response 200 (Some (JObj [(''id'', JInt 1), (''age'', JStr ''22'')])))
     (snd (process_user ascii_upper ''2024-01-01T00:00:00'' ann [])) = (Inl TypeError, [1]) \<and>
   status_code (fst (get_analytics
     (\<lambda>uid. Response 200 (Some (JObj [(''id'', JInt 1), (''age'', JStr ''22'')])))
     (snd (process_user ascii_upper ''2024-01-01T00:00:00'' ann [])))) = 500"
  by (simp add: ann_store get_analytics_def collect_age_def lookup_age_def subscript_def
      average_def)

subsection \<open>The age distribution\<close>

lemma set_update_subset: "set (AList.update k v al) \<subseteq> insert (k, v) (set al)"
  by (induction al) auto

lemma processed_data_of_category:
  "age_category (processed_data_of upper user) \<in> {''young'', ''middle'', ''senior''}"
  by (simp add: processed_data_of_def)

lemma process_user_categories:
  assumes "\<forall>kv \<in> set db. known_category (snd kv)"
  shows "\<forall>kv \<in> set (snd (process_user upper now user db)). known_category (snd kv)"
proof (cases "id' user")
  case None
  then show ?thesis using assms by (simp add: process_user_def)
next
  case (Some uid)
  show ?thesis
  proof (cases "uid = 0")
    case True
    then show ?thesis using assms Some by (simp add: process_user_def)
  next
    case False
    let ?r = "\<lparr> user_id = uid, processed_data = processed_data_of upper user,
        processing_timestamp = now,
        analytics = \<lparr> processing_time_ms = 150, data_quality_score = 95 / 100,
                      confidence_level = 88 / 100 \<rparr> \<rparr>"
    have "snd (process_user upper now user db) = AList.update uid ?r db"
      using Some False by (simp add: process_user_def)
    moreover have "known_category ?r"
      using processed_data_of_category [of upper user] by (simp add: known_category_def)
    ultimately show ?thesis
      using assms set_update_subset [of uid ?r db] by auto
  qed
qed

lemma delete_processed_user_categories:
  assumes "\<forall>kv \<in> set db. known_category (snd kv)"
  shows "\<forall>kv \<in> set (snd (delete_processed_user uid db)). known_category (snd kv)"
  using assms
  by (cases "map_of db uid") (simp_all add: delete_processed_user_def delete_filter)

lemma reachable_categories:
  "reachable db \<Longrightarrow> \<forall>kv \<in> set db. known_category (snd kv)"
proof (induction rule: reachable.induct)
  case start
  show ?case by simp
next
  case (processed db upper now user)
  from processed.IH show ?case by (rule process_user_categories)
next
  case (deleted db uid)
  from deleted.IH show ?case by (rule delete_processed_user_categories)
qed

lemma analytics_loop_histogram:
  "\<forall>r \<in> set rs. known_category r \<Longrightarrow>
   analytics_loop peer rs [(''young'', a), (''middle'', b), (''senior'', c)] ages calls =
     (h, ages', calls') \<Longrightarrow>
   \<exists>a' b' c'. h = [(''young'', a'), (''middle'', b'), (''senior'', c')] \<and>
     a \<le> a' \<and> b \<le> b' \<and> c \<le> c' \<and> a' + b' + c' = a + b + c + int (length rs)"
proof (induction rs arbitrary: a b c ages calls)
  case Nil
  then show ?case by auto
next
  case (Cons r rs)
  from Cons.prems(1) have cat: "known_category r" and rest: "\<forall>r \<in> set rs. known_category r"
    by simp_all
  let ?ages = "collect_age (peer (user_id r)) (age_category (processed_data r)) ages"
  let ?calls = "calls @ [user_id r]"
  from cat consider
      (young) "age_category (processed_data r) = ''young''"
    | (middle) "age_category (processed_data r) = ''middle''"
    | (senior) "age_category (processed_data r) = ''senior''"
    by (auto simp add: known_category_def)
  then show ?case
  proof cases
    case young
    with Cons.prems(2) have
      "analytics_loop peer rs [(''young'', a + 1), (''middle'', b), (''senior'', c)] ?ages ?calls =
         (h, ages', calls')"
      by (simp add: Let_def)
    from Cons.IH [OF rest this] show ?thesis by fastforce
  next
    case middle
    with Cons.prems(2) have
      "analytics_loop peer rs [(''young'', a), (''middle'', b + 1), (''senior'', c)] ?ages ?calls =
         (h, ages', calls')"
      by (simp add: Let_def)
    from Cons.IH [OF rest this] show ?thesis by fastforce
  next
    case senior
    with Cons.prems(2) have
      "analytics_loop peer rs [(''young'', a), (''middle'', b), (''senior'', c + 1)] ?ages ?calls =
         (h, ages', calls')"
      by (simp add: Let_def)
    from Cons.IH [OF rest this] show ?thesis by fastforce
  qed
qed

text \<open>
  Claim C10. For a non-empty store that the service can reach and any peer, the
  distribution of a summary that \<open>get_analytics\<close> returns has exactly the keys
  \<open>young\<close>, \<open>middle\<close> and \<open>senior\<close>, in this order, every count is at least 0, and
  the counts add up to \<open>total_users\<close>, the number of stored records.
\<close>

theorem get_analytics_age_distribution:
  assumes "reachable db" and "db \<noteq> []"
    and "get_analytics peer db = (Inr (Summary s), calls)"
  shows "map fst (age_distribution s) = [''young'', ''middle'', ''senior''] \<and>
    list_all (\<lambda>kv. 0 \<le> snd kv) (age_distribution s) \<and>
    sum_list (map snd (age_distribution s)) = int (total_users s) \<and>
    total_users s = length db"
proof -
  obtain h ages calls' where loop:
    "analytics_loop peer (map snd db) [(''young'', 0), (''middle'', 0), (''senior'', 0)] [] [] =
       (h, ages, calls')"
    by (metis prod_cases3)
  have known: "\<forall>r \<in> set (map snd db). known_category r"
    using reachable_categories [OF assms(1)] by simp
  from analytics_loop_histogram [OF known loop] obtain a' b' c' where
    h: "h = [(''young'', a'), (''middle'', b'), (''senior'', c')]"
    and pos: "0 \<le> a'" "0 \<le> b'" "0 \<le> c'"
    and total: "a' + b' + c' = int (length db)"
    by auto
  from assms(2,3) loop have "age_distribution s = h \<and> total_users s = length db"
    by (auto simp add: get_analytics_def split: sum.splits)
  then show ?thesis
    using h pos total by simp
qed

lemma round2_65_2: "round2 (65 / 2) = 65 / 2"
  by (simp add: round2_def)

text \<open>The store of \<open>ann\<close> and \<open>bob\<close> with a peer that cannot be reached.\<close>

theorem get_analytics_age_distribution_ann_bob:
  "reachable (snd (process_user ascii_upper ''2024-01-02T00:00:00'' bob
          (snd (process_user ascii_upper ''2024-01-01T00:00:00'' ann [])))) \<and>
   snd (process_user ascii_upper ''2024-01-02T00:00:00'' bob
          (snd (process_user ascii_upper ''2024-01-01T00:00:00'' ann []))) \<noteq> [] \<and>
   get_analytics (\<lambda>uid. Failed ConnectError)
     (snd (process_user ascii_upper ''2024-01-02T00:00:00'' bob
          (snd (process_user ascii_upper ''2024-01-01T00:00:00'' ann [])))) =
     (Inr (Summary
        \<lparr> total_users = 2, average_age = 65 / 2,
          age_distribution = [(''young'', 1), (''middle'', 1), (''senior'', 0)],
          processing_stats =
            Some \<lparr> total_processed = 2, avg_processing_time_ms = 150,
                   avg_confidence_level = 88 / 100, avg_data_quality_score = 95 / 100 \<rparr> \<rparr>),
      [1, 2]) \<and>
   sum_list (map snd [(''young'', 1::int), (''middle'', 1), (''senior'', 0)]) = int 2"
proof -
  let ?db = "snd (process_user ascii_upper ''2024-01-02T00:00:00'' bob
          (snd (process_user ascii_upper ''2024-01-01T00:00:00'' ann [])))"
  let ?s = "\<lparr> total_users = 2, average_age = 65 / 2,
          age_distribution = [(''young'', 1), (''middle'', 1), (''senior'', 0)],
          processing_stats =
            Some \<lparr> total_processed = 2, avg_processing_time_ms = 150,
                   avg_confidence_level = 88 / 100, avg_data_quality_score = 95 / 100 \<rparr> \<rparr>"
  have r: "reachable ?db"
    by (intro reachable.processed reachable.start)
  have n: "?db \<noteq> []"
    by (simp add: bob_store)
  have g: "get_analytics (\<lambda>uid. Failed ConnectError) ?db = (Inr (Summary ?s), [1, 2])"
    by (simp add: bob_store get_analytics_def collect_age_def lookup_age_def estimate_def
        average_def round2_65_2)
  show ?thesis
    using r n g get_analytics_age_distribution [OF r n g] by simp
qed

section \<open>Properties of batch processing\<close>

lemma submit_all_no_raise:
  "list_all (\<lambda>r. \<not> raised r) (submissions post k us) \<Longrightarrow>
   submit_all post k us c = Inr (c + length (filter accepted (submissions post k us)))"
proof (induction us arbitrary: k c)
  case Nil
  show ?case by simp
next
  case (Cons u us)
  from Cons.prems obtain status body where r: "post k u = Response status body"
    by (cases "post k u") simp_all
  from Cons.prems have "list_all (\<lambda>r. \<not> raised r) (submissions post (Suc k) us)"
    by simp
  then have "submit_all post (Suc k) us (if status = 200 then c + 1 else c) =
      Inr ((if status = 200 then c + 1 else c)
           + length (filter accepted (submissions post (Suc k) us)))"
    by (rule Cons.IH)
  then show ?case
    using r by simp
qed

lemma submit_all_raise:
  "list_ex raised (submissions post k us) \<Longrightarrow>
   \<exists>e. submit_all post k us c = Inl (TransportError e)"
proof (induction us arbitrary: k c)
  case Nil
  then show ?case by simp
next
  case (Cons u us)
  show ?case
  proof (cases "post k u")
    case (Failed e)
    then show ?thesis by simp
  next
    case (Response status body)
    with Cons.prems have "list_ex raised (submissions post (Suc k) us)"
      by simp
    then obtain e where
      "submit_all post (Suc k) us (if status = 200 then c + 1 else c) = Inl (TransportError e)"
      using Cons.IH by blast
    then show ?thesis using Response by simp
  qed
qed

lemma batch_body_not_fetched:
  "fetched_users fetch = None \<Longrightarrow> \<exists>e. batch_body fetch post = Inl e"
  by (auto simp add: fetched_users_def batch_body_def split: reply.splits option.splits if_splits)

lemma batch_body_fetched:
  "fetched_users fetch = Some us \<Longrightarrow>
   batch_body fetch post =
     (case submit_all post 0 us 0 of
        Inl e \<Rightarrow> Inl e
      | Inr processed_count \<Rightarrow>
          Inr (BatchResult ''Batch processing completed'' (length us) processed_count))"
  by (auto simp add: fetched_users_def batch_body_def split: reply.splits option.splits if_splits)

text \<open>
  Claim C7, as the code has it. When the initial fetch yields no list of users, the
  answer is 500. When it yields one and no submission raises, the batch runs to its end:
  a submission answered with a status other than 200 is skipped without a trace, and the
  response reports the number of users and the number of submissions answered with 200.
  When a submission raises (a timeout, a connection error), the exception leaves the loop
  and the answer is 500.
\<close>

theorem batch_process_users_outcomes:
  "(fetched_users fetch = None \<longrightarrow> status_code (batch_process_users fetch post) = 500) \<and>
   (fetched_users fetch = Some us \<longrightarrow>
      (list_all (\<lambda>r. \<not> raised r) (submissions post 0 us) \<longrightarrow>
         batch_process_users fetch post =
           Inr (BatchResult ''Batch processing completed'' (length us)
                  (length (filter accepted (submissions post 0 us))))) \<and>
      (list_ex raised (submissions post 0 us) \<longrightarrow>
         status_code (batch_process_users fetch post) = 500))"
proof (intro conjI impI)
  assume "fetched_users fetch = None"
  then obtain e where "batch_body fetch post = Inl e"
    using batch_body_not_fetched by blast
  then show "status_code (batch_process_users fetch post) = 500"
    by (simp add: batch_process_users_def)
next
  assume f: "fetched_users fetch = Some us"
    and ok: "list_all (\<lambda>r. \<not> raised r) (submissions post 0 us)"
  have "submit_all post 0 us 0 = Inr (0 + length (filter accepted (submissions post 0 us)))"
    using ok by (rule submit_all_no_raise)
  then show "batch_process_users fetch post =
      Inr (BatchResult ''Batch processing completed'' (length us)
             (length (filter accepted (submissions post 0 us))))"
    by (simp add: batch_process_users_def batch_body_fetched [OF f])
next
  assume f: "fetched_users fetch = Some us"
    and bad: "list_ex raised (submissions post 0 us)"
  obtain e where "submit_all post 0 us 0 = Inl (TransportError e)"
    using submit_all_raise [OF bad] by blast
  then show "status_code (batch_process_users fetch post) = 500"
    by (simp add: batch_process_users_def batch_body_fetched [OF f])
qed

text \<open>
  Claim C7 as stated fails: two users are fetched, the first submission times out and the
  second would be answered with 200. The batch does not continue to report one processed
  user; it answers 500.
\<close>

theorem batch_process_users_raise_aborts:
  "batch_process_users (Response 200 (Some (JArr [JInt 1, JInt 2])))
     (\<lambda>k user. if k = 0 then Failed TimeoutException else Response 200 None) =
     Inl (HTTPException 500 (BatchProcessingFailed (TransportError TimeoutException))) \<and>
   batch_process_users (Response 200 (Some (JArr [JInt 1, JInt 2])))
     (\<lambda>k user. if k = 0 then Failed TimeoutException else Response 200 None) \<noteq>
     Inr (BatchResult ''Batch processing completed'' 2 1)"
  by (simp add: batch_process_users_def batch_body_def)

text \<open>
  The three cases: a fetch that fails, a first submission answered with 500 (skipped),
  and a first submission that times out.
\<close>

theorem batch_process_users_outcomes_examples:
  "fetched_users (Failed ConnectError) = None \<and>
   status_code (batch_process_users (Failed ConnectError) (\<lambda>k user. Response 200 None)) = 500 \<and>
   fetched_users (Response 200 (Some (JArr [JInt 1, JInt 2]))) = Some [JInt 1, JInt 2] \<and>
   list_all (\<lambda>r. \<not> raised r)
     (submissions (\<lambda>k user. if k = 0 then Response 500 None else Response 200 None) 0
        [JInt 1, JInt 2]) \<and>
   batch_process_users (Response 200 (Some (JArr [JInt 1, JInt 2])))
     (\<lambda>k user. if k = 0 then Response 500 None else Response 200 None) =
     Inr (BatchResult ''Batch processing completed'' 2 1) \<and>
   list_ex raised
     (submissions (\<lambda>k user. if k = 0 then Failed TimeoutException else Response 200 None) 0
        [JInt 1, JInt 2]) \<and>
   status_code (batch_process_users (Response 200 (Some (JArr [JInt 1, JInt 2])))
     (\<lambda>k user. if k = 0 then Failed TimeoutException else Response 200 None)) = 500"
proof -
  let ?fetch = "Response 200 (Some (JArr [JInt 1, JInt 2]))"
  let ?skip = "\<lambda>(k::nat) (user::json). if k = 0 then Response 500 None else Response 200 None"
  let ?abort = "\<lambda>(k::nat) (user::json). if k = 0 then Failed TimeoutException else Response 200 None"
  have a: "fetched_users (Failed ConnectError) = None"
    by (simp add: fetched_users_def)
  have b: "fetched_users ?fetch = Some [JInt 1, JInt 2]"
    by (simp add: fetched_users_def)
  have c: "list_all (\<lambda>r. \<not> raised r) (submissions ?skip 0 [JInt 1, JInt 2])"
    by simp
  have d: "list_ex raised (submissions ?abort 0 [JInt 1, JInt 2])"
    by simp
  have n: "length (filter accepted (submissions ?skip 0 [JInt 1, JInt 2])) = 1"
    by simp
  show ?thesis
    using a b c d n
      batch_process_users_outcomes
        [where fetch = "Failed ConnectError" and post = "\<lambda>k user. Response 200 None" and us = "[]"]
      batch_process_users_outcomes [where fetch = ?fetch and us = "[JInt 1, JInt 2]" and post = ?skip]
      batch_process_users_outcomes [where fetch = ?fetch and us = "[JInt 1, JInt 2]" and post = ?abort]
    by simp
qed

end
